theory Spec2Isabelle
  imports Complex_Main "HOL-Library.Char_ord" "HOL-Library.List_Lexorder"
begin

section \<open>Text primitives of the Python runtime\<close>

text \<open>
  Python strings are modelled as \<^typ>\<open>string\<close>, one \<^typ>\<open>char\<close> per code point, for
  text in the ASCII range: case conversion and white space are those of ASCII, and a
  character above 127 is neither a letter, a digit nor white space.
\<close>

definition LF :: char where
  "LF = CHR 0x0A"

definition CR :: char where
  "CR = CHR 0x0D"

definition is_space :: "char \<Rightarrow> bool" where
  "is_space c = ((9 \<le> (of_char c :: nat) \<and> (of_char c :: nat) \<le> 13)
     \<or> (28 \<le> (of_char c :: nat) \<and> (of_char c :: nat) \<le> 32))"

definition is_lower :: "char \<Rightarrow> bool" where
  "is_lower c = (97 \<le> (of_char c :: nat) \<and> (of_char c :: nat) \<le> 122)"

definition is_upper :: "char \<Rightarrow> bool" where
  "is_upper c = (65 \<le> (of_char c :: nat) \<and> (of_char c :: nat) \<le> 90)"

definition is_digit :: "char \<Rightarrow> bool" where
  "is_digit c = (48 \<le> (of_char c :: nat) \<and> (of_char c :: nat) \<le> 57)"

definition upper :: "char \<Rightarrow> char" where
  "upper c = (if is_lower c then char_of ((of_char c :: nat) - 32) else c)"

definition lower :: "char \<Rightarrow> char" where
  "lower c = (if is_upper c then char_of ((of_char c :: nat) + 32) else c)"

text \<open>\<^verbatim>\<open>str.strip()\<close>: white space removed at both ends.\<close>

definition strip :: "string \<Rightarrow> string" where
  "strip s = rev (dropWhile is_space (rev (dropWhile is_space s)))"

text \<open>\<^verbatim>\<open>str.capitalize()\<close>: first character upper case, the rest lower case.\<close>

fun capitalize :: "string \<Rightarrow> string" where
  "capitalize [] = []"
| "capitalize (c # cs) = upper c # map lower cs"

text \<open>\<^verbatim>\<open>str.startswith(p)\<close>.\<close>

definition startswith :: "string \<Rightarrow> string \<Rightarrow> bool" where
  "startswith s p = (take (length p) s = p)"

text \<open>\<^verbatim>\<open>str.split(sep)\<close> for a one-character separator: always at least one part.\<close>

fun split_on :: "char \<Rightarrow> string \<Rightarrow> string list" where
  "split_on sep [] = [[]]"
| "split_on sep (c # cs) =
     (if c = sep then [] # split_on sep cs
      else (case split_on sep cs of [] \<Rightarrow> [[c]] | p # ps \<Rightarrow> (c # p) # ps))"

text \<open>
  A file opened in text mode translates \<^verbatim>\<open>\r\n\<close> and a lone \<^verbatim>\<open>\r\<close> to \<^verbatim>\<open>\n\<close>;
  \<^verbatim>\<open>readlines()\<close> cuts the text after each \<^verbatim>\<open>\n\<close> and keeps it on the line.
\<close>

fun universal_newlines :: "string \<Rightarrow> string" where
  "universal_newlines [] = []"
| "universal_newlines [c] = (if c = CR then [LF] else [c])"
| "universal_newlines (c # d # cs) =
     (if c = CR then (if d = LF then LF # universal_newlines cs
                      else LF # universal_newlines (d # cs))
      else c # universal_newlines (d # cs))"

fun split_lines :: "string \<Rightarrow> string list" where
  "split_lines [] = []"
| "split_lines (c # cs) =
     (if c = LF then [c] # split_lines cs
      else (case split_lines cs of [] \<Rightarrow> [[c]] | l # ls \<Rightarrow> (c # l) # ls))"

definition readlines :: "string \<Rightarrow> string list" where
  "readlines text = split_lines (universal_newlines text)"

text \<open>\<^verbatim>\<open>str.endswith(p)\<close>.\<close>

definition endswith :: "string \<Rightarrow> string \<Rightarrow> bool" where
  "endswith s p = (length p \<le> length s \<and> drop (length s - length p) s = p)"

text \<open>\<^verbatim>\<open>sep.join(parts)\<close> for a one-character separator.\<close>

fun join :: "char \<Rightarrow> string list \<Rightarrow> string" where
  "join sep [] = []"
| "join sep [p] = p"
| "join sep (p # q # ps) = p @ sep # join sep (q # ps)"

subsection \<open>Numbers read from text\<close>

text \<open>
  \<^verbatim>\<open>int\<close> and \<^verbatim>\<open>float\<close> skip white space at both ends themselves, and for
  them the separators \<^verbatim>\<open>\x1c\<close> to \<^verbatim>\<open>\x1f\<close> are not white space.
\<close>

definition is_c_space :: "char \<Rightarrow> bool" where
  "is_c_space c = ((9 \<le> (of_char c :: nat) \<and> (of_char c :: nat) \<le> 13) \<or> (of_char c :: nat) = 32)"

definition c_strip :: "string \<Rightarrow> string" where
  "c_strip s = rev (dropWhile is_c_space (rev (dropWhile is_c_space s)))"

text \<open>
  A group of digits in which single underscores may stand between two digits
  (\<^verbatim>\<open>digitpart\<close> of the Python grammar), and its value.
\<close>

fun digitpart :: "string \<Rightarrow> bool" where
  "digitpart [] = False"
| "digitpart [c] = is_digit c"
| "digitpart (c # d # cs) =
     (is_digit c \<and> (if d = CHR ''_'' then digitpart cs else digitpart (d # cs)))"

definition digit_val :: "char \<Rightarrow> nat" where
  "digit_val c = (of_char c :: nat) - 48"

definition digits_value :: "string \<Rightarrow> nat" where
  "digits_value s = foldl (\<lambda>n c. 10 * n + digit_val c) 0 (filter is_digit s)"

definition parse_sign :: "string \<Rightarrow> bool \<times> string" where
  "parse_sign s =
     (case s of
        [] \<Rightarrow> (False, [])
      | c # cs \<Rightarrow> if c = CHR ''-'' then (True, cs)
                 else if c = CHR ''+'' then (False, cs) else (False, s))"

text \<open>\<^verbatim>\<open>int(s)\<close> in base 10; \<open>None\<close> stands for \<^verbatim>\<open>ValueError\<close>.\<close>

definition py_int :: "string \<Rightarrow> int option" where
  "py_int s =
     (case parse_sign (c_strip s) of
        (neg, ds) \<Rightarrow>
          if digitpart ds
          then Some (if neg then - int (digits_value ds) else int (digits_value ds))
          else None)"

text \<open>
  The values of a Python \<^verbatim>\<open>float\<close>. A finite value is kept as the real number that the
  decimal text denotes; the rounding to the nearest binary64 number, which keeps the sign
  and leaves a number such as \<open>10.5\<close> as it is, is not part of the model.
\<close>

datatype pyfloat = Finite real | PosInf | NegInf | NaN

definition cut_at :: "(char \<Rightarrow> bool) \<Rightarrow> string \<Rightarrow> string \<times> string option" where
  "cut_at P s =
     (case dropWhile (\<lambda>c. \<not> P c) s of
        [] \<Rightarrow> (s, None)
      | c # r \<Rightarrow> (takeWhile (\<lambda>c. \<not> P c) s, Some r))"

text \<open>The digits of a mantissa and how many of them follow the point.\<close>

definition parse_number :: "string \<Rightarrow> (nat \<times> nat) option" where
  "parse_number s =
     (case cut_at (\<lambda>c. c = CHR ''.'') s of
        (ip, None) \<Rightarrow> if digitpart ip then Some (digits_value ip, 0) else None
      | (ip, Some fp) \<Rightarrow>
          if ip = [] then (if digitpart fp then Some (digits_value fp, length (filter is_digit fp)) else None)
          else if \<not> digitpart ip then None
          else if fp = [] then Some (digits_value ip, 0)
          else if digitpart fp
          then Some (digits_value (ip @ fp), length (filter is_digit fp))
          else None)"

definition scale10 :: "nat \<Rightarrow> int \<Rightarrow> real" where
  "scale10 m e = (if 0 \<le> e then real m * 10 ^ nat e else real m / 10 ^ nat (- e))"

definition signed :: "bool \<Rightarrow> real \<Rightarrow> real" where
  "signed neg x = (if neg then - x else x)"

text \<open>\<^verbatim>\<open>float(s)\<close>; \<open>None\<close> stands for \<^verbatim>\<open>ValueError\<close>.\<close>

definition py_float :: "string \<Rightarrow> pyfloat option" where
  "py_float s =
     (case parse_sign (c_strip s) of
        (neg, body) \<Rightarrow>
          if map lower body = ''inf'' \<or> map lower body = ''infinity''
          then Some (if neg then NegInf else PosInf)
          else if map lower body = ''nan'' then Some NaN
          else
            (case cut_at (\<lambda>c. c = CHR ''e'' \<or> c = CHR ''E'') body of
               (m, ex) \<Rightarrow>
                 (case parse_number m of
                    None \<Rightarrow> None
                  | Some (digits, k) \<Rightarrow>
                      (case ex of
                         None \<Rightarrow> Some (Finite (signed neg (scale10 digits (- int k))))
                       | Some es \<Rightarrow>
                           (case parse_sign es of
                              (eneg, ed) \<Rightarrow>
                                if digitpart ed
                                then Some (Finite (signed neg (scale10 digits
                                       ((if eneg then - int (digits_value ed)
                                         else int (digits_value ed)) - int k))))
                                else None)))))"

text \<open>\<^verbatim>\<open>str(n)\<close> for a natural number, as an f-string prints a loop index.\<close>

fun str_nat :: "nat \<Rightarrow> string" where
  "str_nat n = (if n < 10 then [char_of (48 + n)] else str_nat (n div 10) @ [char_of (48 + n mod 10)])"

definition quoted :: "string \<Rightarrow> string" where
  "quoted s = [CHR 0x27] @ s @ [CHR 0x27]"

section \<open>The record model\<close>

text \<open>
  One shoe: the dictionary with the keys brand, name, color, usage and size. The key
  \<^verbatim>\<open>size\<close> is the field \<open>size_val\<close>, the name \<open>size\<close> being taken in HOL.
\<close>

record shoe =
  brand :: string
  name :: string
  color :: string
  usage :: string
  size_val :: pyfloat

definition usages :: "string list" where
  "usages = [''Casual'', ''Athletic'', ''Formal'']"

section \<open>The file collector\<close>

text \<open>What opening and reading a path gives.\<close>

datatype file_access = NotFound | Failure string | Content string

text \<open>
  The body of the innermost \<^verbatim>\<open>if\<close> of \<^verbatim>\<open>read_shoe_data_from_file\<close>: from the
  parts of a line, of which there are at least five, the warnings printed and the record
  appended. The only exception it meets is the \<^verbatim>\<open>ValueError\<close> of \<^verbatim>\<open>float\<close>, caught
  on the spot.
\<close>

definition build_record :: "string list \<Rightarrow> string list \<times> shoe" where
  "build_record parts =
     (let b = capitalize (strip (parts ! 0));
          n = capitalize (strip (parts ! 1));
          c = capitalize (strip (parts ! 2));
          u = capitalize (strip (parts ! 3));
          w1 = (if u \<in> set usages then []
                else [''Warning: Invalid usage '' @ quoted u
                       @ '' found in file. Defaulting to '' @ quoted ''Casual'' @ ''.'']);
          u' = (if u \<in> set usages then u else ''Casual'');
          w2 = (case py_float (strip (parts ! 4)) of
                  Some x \<Rightarrow> []
                | None \<Rightarrow> [''Warning: Invalid size '' @ quoted (strip (parts ! 4))
                            @ '' found in file. Using 0 as default.'']);
          sz = (case py_float (strip (parts ! 4)) of Some x \<Rightarrow> x | None \<Rightarrow> Finite 0)
      in (w1 @ w2, \<lparr>brand = b, name = n, color = c, usage = u', size_val = sz\<rparr>))"

text \<open>
  One turn of the loop over the lines after the header. The state is what was printed
  so far and the list \<^verbatim>\<open>shoes\<close>.
\<close>

definition process_line :: "string \<Rightarrow> string list \<times> shoe list \<Rightarrow> string list \<times> shoe list" where
  "process_line line st =
     (if strip line \<noteq> [] \<and> \<not> startswith (strip line) ''#'' then
        (let parts = split_on CHR '','' (strip line) in
         if 5 \<le> length parts
         then (fst st @ fst (build_record parts), snd st @ [snd (build_record parts)])
         else st)
      else st)"

definition read_shoe_data_from_file ::
    "(string \<Rightarrow> file_access) \<Rightarrow> string \<Rightarrow> string list \<times> shoe list option" where
  "read_shoe_data_from_file fs filename =
     (case fs filename of
        NotFound \<Rightarrow> ([''File '' @ quoted filename @ '' not found.''], None)
      | Failure e \<Rightarrow> ([''An error occurred while reading the file: '' @ e], None)
      | Content text \<Rightarrow>
          (case foldl (\<lambda>st line. process_line line st) ([], []) (drop 1 (readlines text)) of
             (out, shoes) \<Rightarrow>
               if shoes = [] then (out @ [''No valid data found in the file.''], None)
               else (out, Some shoes)))"

subsection \<open>The words of the specification about a file\<close>

text \<open>
  A data row is a line that is not blank, is not a comment and has at least five fields;
  the data rows of a file are those after its first line.
\<close>

definition row_parts :: "string \<Rightarrow> string list" where
  "row_parts line = split_on CHR '','' (strip line)"

definition blank_line :: "string \<Rightarrow> bool" where
  "blank_line line = (strip line = [])"

definition comment_line :: "string \<Rightarrow> bool" where
  "comment_line line = startswith (strip line) ''#''"

definition data_row :: "string \<Rightarrow> bool" where
  "data_row line = (\<not> blank_line line \<and> \<not> comment_line line \<and> 5 \<le> length (row_parts line))"

definition short_row :: "string \<Rightarrow> bool" where
  "short_row line = (\<not> blank_line line \<and> \<not> comment_line line \<and> length (row_parts line) < 5)"

definition data_rows :: "string \<Rightarrow> string list" where
  "data_rows text = filter data_row (drop 1 (readlines text))"

text \<open>The record and the warnings that a data row gives.\<close>

definition row_record :: "string \<Rightarrow> shoe" where
  "row_record line = snd (build_record (row_parts line))"

definition row_warnings :: "string \<Rightarrow> string list" where
  "row_warnings line = fst (build_record (row_parts line))"




section \<open>The interactive collector\<close>

text \<open>
  The terminal is the list of the lines still to be typed; \<^verbatim>\<open>input(prompt)\<close> prints the
  prompt and takes the first of them, and raises \<^verbatim>\<open>EOFError\<close> when none is left.
  A collector returns what it printed, in order, and either the exception that left it
  or its value with the lines not yet read.
\<close>

datatype exn = EOFError | TypeError

text \<open>The \<^verbatim>\<open>while True\<close> loop that asks for the usage.\<close>

fun ask_usage :: "string list \<Rightarrow> string list \<times> (string \<times> string list) option" where
  "ask_usage [] = ([''Usage (Casual, Athletic, Formal): ''], None)"
| "ask_usage (l # ls) =
     (if capitalize (strip l) \<in> set usages
      then ([''Usage (Casual, Athletic, Formal): ''], Some (capitalize (strip l), ls))
      else (case ask_usage ls of
              (out, r) \<Rightarrow>
                (''Usage (Casual, Athletic, Formal): ''
                  # ''Invalid usage. Please choose from: Casual, Athletic, Formal.'' # out, r)))"

text \<open>The body of the \<^verbatim>\<open>for\<close> loop: one shoe, number \<open>i\<close>.\<close>

definition ask_shoe :: "nat \<Rightarrow> string list \<Rightarrow> string list \<times> (exn + shoe \<times> string list)" where
  "ask_shoe i inp =
     (case inp of
        [] \<Rightarrow> ([LF # ''Shoe #'' @ str_nat i, ''Brand: ''], Inl EOFError)
      | b # inp1 \<Rightarrow>
     (case inp1 of
        [] \<Rightarrow> ([LF # ''Shoe #'' @ str_nat i, ''Brand: '', ''Name/Model: ''], Inl EOFError)
      | n # inp2 \<Rightarrow>
     (case inp2 of
        [] \<Rightarrow> ([LF # ''Shoe #'' @ str_nat i, ''Brand: '', ''Name/Model: '', ''Color: ''],
               Inl EOFError)
      | c # inp3 \<Rightarrow>
     (case ask_usage inp3 of
        (out, None) \<Rightarrow>
          ([LF # ''Shoe #'' @ str_nat i, ''Brand: '', ''Name/Model: '', ''Color: ''] @ out,
           Inl EOFError)
      | (out, Some (u, inp4)) \<Rightarrow>
     (case inp4 of
        [] \<Rightarrow>
          ([LF # ''Shoe #'' @ str_nat i, ''Brand: '', ''Name/Model: '', ''Color: ''] @ out
             @ [''Size (numerical): ''],
           Inl EOFError)
      | s # inp5 \<Rightarrow>
          ([LF # ''Shoe #'' @ str_nat i, ''Brand: '', ''Name/Model: '', ''Color: ''] @ out
             @ [''Size (numerical): '']
             @ (case py_float (strip s) of
                  Some x \<Rightarrow> []
                | None \<Rightarrow> [''Invalid size input. Using 0 as default.'']),
           Inr (\<lparr>brand = capitalize (strip b), name = capitalize (strip n),
                  color = capitalize (strip c), usage = u,
                  size_val = (case py_float (strip s) of Some x \<Rightarrow> x | None \<Rightarrow> Finite 0)\<rparr>,
                inp5)))))))"

text \<open>
  \<^verbatim>\<open>for i in range(1, num_shoes + 1)\<close>: \<open>k\<close> turns are left and the next shoe has
  number \<open>i\<close>.
\<close>

fun shoe_loop :: "nat \<Rightarrow> nat \<Rightarrow> string list \<Rightarrow> string list \<times> (exn + shoe list \<times> string list)" where
  "shoe_loop 0 i inp = ([], Inr ([], inp))"
| "shoe_loop (Suc k) i inp =
     (case ask_shoe i inp of
        (out, Inl e) \<Rightarrow> (out, Inl e)
      | (out, Inr (s, inp')) \<Rightarrow>
          (case shoe_loop k (Suc i) inp' of
             (out', Inl e) \<Rightarrow> (out @ out', Inl e)
           | (out', Inr (ss, inp'')) \<Rightarrow> (out @ out', Inr (s # ss, inp''))))"

definition count_prompt :: string where
  "count_prompt = ''How many shoes do you have in your collection? ''"

definition retry_message :: string where
  "retry_message = ''Please enter a valid number of shoes.''"

text \<open>
  \<^verbatim>\<open>get_shoe_data\<close>: a count that \<^verbatim>\<open>int\<close> refuses is answered by a message and a
  call of the function itself. The depth of that recursion is not bounded in the model,
  as it is by the interpreter's recursion limit.
\<close>

fun get_shoe_data :: "string list \<Rightarrow> string list \<times> (exn + shoe list \<times> string list)" where
  "get_shoe_data [] = ([count_prompt], Inl EOFError)"
| "get_shoe_data (l # ls) =
     (case py_int l of
        None \<Rightarrow>
          (case get_shoe_data ls of (out, r) \<Rightarrow> (count_prompt # retry_message # out, r))
      | Some num_shoes \<Rightarrow>
          (case shoe_loop (nat num_shoes) 1 ls of (out, r) \<Rightarrow> (count_prompt # out, r)))"



section \<open>The brand by usage cross tabulation\<close>

text \<open>
  The data frame is the list of the records, in order. \<^verbatim>\<open>pd.crosstab(df['brand'],
  df['usage'])\<close> has one row for each brand and one column for each usage that occur, both
  in ascending order of their text, and a cell counts the records with that brand and
  that usage.
\<close>

definition crosstab :: "shoe list \<Rightarrow> (string \<times> nat list) list" where
  "crosstab df =
     map (\<lambda>b. (b, map (\<lambda>u. length (filter (\<lambda>r. brand r = b \<and> usage r = u) df))
                      (sort (remdups (map usage df)))))
         (sort (remdups (map brand df)))"

text \<open>\<^verbatim>\<open>.sum(axis=1)\<close>: the total of each row, under its label.\<close>

definition row_sums :: "(string \<times> nat list) list \<Rightarrow> (string \<times> nat) list" where
  "row_sums ct = map (\<lambda>row. (fst row, sum_list (snd row))) ct"

text \<open>
  \<^verbatim>\<open>.sort_values(ascending=False)\<close>: pandas reverses the series, sorts it in ascending
  order and reverses the result. Its default sort does not promise an order among equal
  values; the model takes a sort that keeps them in place, so that equal totals stay in
  the order of the series.
\<close>

definition sort_values_desc :: "(string \<times> nat) list \<Rightarrow> (string \<times> nat) list" where
  "sort_values_desc xs = rev (sort_key snd (rev xs))"

text \<open>\<^verbatim>\<open>.loc[labels]\<close>: the rows with these labels, in the order of the labels.\<close>

definition loc :: "(string \<times> nat list) list \<Rightarrow> string list \<Rightarrow> (string \<times> nat list) list" where
  "loc ct labels = concat (map (\<lambda>b. filter (\<lambda>row. fst row = b) ct) labels)"

text \<open>The two lines of \<^verbatim>\<open>analyze_shoes\<close> that build the table of the fifth panel.\<close>

definition brand_usage :: "shoe list \<Rightarrow> (string \<times> nat list) list" where
  "brand_usage df =
     loc (crosstab df) (map fst (take 8 (sort_values_desc (row_sums (crosstab df)))))"





section \<open>Analysis and the session\<close>

text \<open>
  A figure is kept as the data it is drawn from, as far as the properties below speak of
  it: the chart figure as the table of its brand by usage panel, the table figure as the
  records it lists. What the session does to the outside is a list of events, in order.
\<close>

datatype figure = ChartsFigure "(string \<times> nat list) list" | TableFigure "shoe list"

datatype event =
    Print string
  | WriteFile string string
  | RemoveFile string
  | ShowFigures
  | ToCsv string "shoe list"
  | SaveFig string figure

text \<open>
  \<^verbatim>\<open>analyze_shoes\<close>: for an empty frame a message and the bare \<^verbatim>\<open>return\<close>, that is
  \<^verbatim>\<open>None\<close>; otherwise the two figures, shown unless they are only to be saved.
\<close>

definition analyze_shoes :: "shoe list \<Rightarrow> bool \<Rightarrow> event list \<times> (figure \<times> figure) option" where
  "analyze_shoes df save_figures =
     (if df = [] then ([Print ''No shoe data available for analysis.''], None)
      else ((if save_figures then [] else [ShowFigures]),
            Some (ChartsFigure (brand_usage df), TableFigure df)))"

definition template_text :: string where
  "template_text =
     ''Brand,Name,Color,Usage,Size'' @ [LF]
     @ ''# Usage must be one of: Casual, Athletic, Formal'' @ [LF]
     @ ''# Example entries below:'' @ [LF]
     @ ''Nike,Air Max,Black,Athletic,10.5'' @ [LF]
     @ ''Adidas,Superstar,White,Casual,11'' @ [LF]
     @ ''Allen Edmonds,Park Avenue,Brown,Formal,10'' @ [LF]"

text \<open>\<^verbatim>\<open>create_template_file\<close>, for a path that can be written.\<close>

definition create_template_file :: "string \<Rightarrow> event list" where
  "create_template_file filename =
     [WriteFile filename template_text,
      Print (''Template file created: '' @ filename),
      Print ''Format: Brand,Name,Color,Usage,Size (one shoe per line)'',
      Print ''Usage must be one of: Casual, Athletic, Formal'']"

definition after :: "event list \<Rightarrow> event list \<times> 'a \<Rightarrow> event list \<times> 'a" where
  "after ev res = (ev @ fst res, snd res)"

text \<open>The call of \<^verbatim>\<open>get_shoe_data\<close> from the menu: its value is the list \<^verbatim>\<open>shoes\<close>.\<close>

definition manual_entry :: "string list \<Rightarrow> event list \<times> (exn + (shoe list \<times> string list) option)" where
  "manual_entry inp =
     (case get_shoe_data inp of
        (out, Inl e) \<Rightarrow> (map Print out, Inl e)
      | (out, Inr (shoes, rest)) \<Rightarrow> (map Print out, Inr (Some (shoes, rest))))"

text \<open>
  The menu of \<^verbatim>\<open>main\<close> on a terminal. The value \<open>Inr None\<close> is the early
  \<^verbatim>\<open>return\<close>, \<open>Inl e\<close> an exception that nothing catches.
\<close>

definition choose_mode ::
    "(string \<Rightarrow> file_access) \<Rightarrow> string list \<Rightarrow> event list \<times> (exn + (shoe list \<times> string list) option)" where
  "choose_mode fs inp =
     (case inp of
        [] \<Rightarrow> ([Print (LF # ''Enter your choice (1-3): '')], Inl EOFError)
      | ch # inp1 \<Rightarrow>
          after [Print (LF # ''Enter your choice (1-3): '')]
            (if strip ch = ''1'' then manual_entry inp1
             else if strip ch = ''2'' then
               (case inp1 of
                  [] \<Rightarrow> ([Print ''Enter the path to your shoe data file: ''], Inl EOFError)
                | fl # inp2 \<Rightarrow>
                    after [Print ''Enter the path to your shoe data file: '']
                      (case read_shoe_data_from_file fs (strip fl) of
                         (out, Some shoes) \<Rightarrow> (map Print out, Inr (Some (shoes, inp2)))
                       | (out, None) \<Rightarrow>
                           after (map Print out
                                  @ [Print ''Would you like to enter data manually instead? (y/n): ''])
                             (case inp2 of
                                [] \<Rightarrow> ([], Inl EOFError)
                              | a # inp3 \<Rightarrow>
                                  if map lower a = ''y'' then manual_entry inp3
                                  else ([Print ''Exiting program.''], Inr None))))
             else if strip ch = ''3'' then
               (case inp1 of
                  [] \<Rightarrow> ([Print ''Enter filename for template (default: shoe_data_template.txt): ''],
                         Inl EOFError)
                | fl # inp2 \<Rightarrow>
                    after ([Print ''Enter filename for template (default: shoe_data_template.txt): '']
                           @ create_template_file
                               (if strip fl = [] then ''shoe_data_template.txt'' else strip fl)
                           @ [Print ''Would you like to enter data manually now? (y/n): ''])
                      (case inp2 of
                         [] \<Rightarrow> ([], Inl EOFError)
                       | a # inp3 \<Rightarrow>
                           if map lower a = ''y'' then manual_entry inp3
                           else ([Print ''Exiting program.''], Inr None)))
             else ([Print ''Invalid choice. Exiting program.''], Inr None)))"

text \<open>Saving without questions, for piped input.\<close>

definition save_piped :: "shoe list \<Rightarrow> figure \<Rightarrow> figure \<Rightarrow> event list" where
  "save_piped df charts_fig table_fig =
     [ToCsv ''shoe_collection.csv'' df,
      Print ''Data saved to shoe_collection.csv'',
      Print ''Saving visualization figures...'',
      SaveFig ''shoe_collection_charts.png'' charts_fig,
      Print (''Charts saved to '' @ quoted ''shoe_collection_charts.png''),
      SaveFig ''shoe_collection_table.png'' table_fig,
      Print (''Table saved to '' @ quoted ''shoe_collection_table.png''),
      Print ''Figure display complete.'']"

definition csv_name :: "string \<Rightarrow> string" where
  "csv_name f =
     (let f1 = (if f = [] then ''shoe_collection.csv'' else f)
      in if endswith f1 ''.csv'' then f1 else f1 @ ''.csv'')"

definition image_name :: "string \<Rightarrow> string \<Rightarrow> string" where
  "image_name fallback f =
     (let f1 = (if f = [] then fallback else f)
      in if endswith (map lower f1) ''.png'' \<or> endswith (map lower f1) ''.jpg''
            \<or> endswith (map lower f1) ''.pdf'' \<or> endswith (map lower f1) ''.svg''
         then f1 else f1 @ ''.png'')"

text \<open>
  The questions of the \<^verbatim>\<open>try\<close> block at the end of \<^verbatim>\<open>main\<close>; the second component
  is \<open>None\<close> when \<^verbatim>\<open>EOFError\<close> was raised.
\<close>

definition ask_csv :: "string list \<Rightarrow> shoe list \<Rightarrow> event list \<times> string list option" where
  "ask_csv inp df =
     (case inp of
        [] \<Rightarrow> ([Print (LF # ''Would you like to save your shoe data to a CSV file? (y/n): '')], None)
      | a # inp1 \<Rightarrow>
          after [Print (LF # ''Would you like to save your shoe data to a CSV file? (y/n): '')]
            (if map lower a = ''y'' then
               (case inp1 of
                  [] \<Rightarrow> ([Print ''Enter filename (default: shoe_collection.csv): ''], None)
                | f # inp2 \<Rightarrow>
                    ([Print ''Enter filename (default: shoe_collection.csv): '',
                      ToCsv (csv_name (strip f)) df,
                      Print (''Data saved to '' @ csv_name (strip f))], Some inp2))
             else ([], Some inp1)))"

definition ask_figs :: "string list \<Rightarrow> figure \<Rightarrow> figure \<Rightarrow> event list \<times> string list option" where
  "ask_figs inp charts_fig table_fig =
     (case inp of
        [] \<Rightarrow> ([Print (LF # ''Would you like to save the visualization figures? (y/n): '')], None)
      | a # inp1 \<Rightarrow>
          after [Print (LF # ''Would you like to save the visualization figures? (y/n): '')]
            (if map lower a = ''y'' then
               (case inp1 of
                  [] \<Rightarrow> ([Print ''Enter filename for charts (default: shoe_collection_charts.png): ''],
                         None)
                | c # inp2 \<Rightarrow>
                    after [Print ''Enter filename for charts (default: shoe_collection_charts.png): '',
                           SaveFig (image_name ''shoe_collection_charts.png'' (strip c)) charts_fig,
                           Print (''Charts saved to ''
                                  @ quoted (image_name ''shoe_collection_charts.png'' (strip c))),
                           Print ''Enter filename for table (default: shoe_collection_table.png): '']
                      (case inp2 of
                         [] \<Rightarrow> ([], None)
                       | t # inp3 \<Rightarrow>
                           ([SaveFig (image_name ''shoe_collection_table.png'' (strip t)) table_fig,
                             Print (''Table saved to ''
                                    @ quoted (image_name ''shoe_collection_table.png'' (strip t)))],
                            Some inp3)))
             else ([], Some inp1)))"

definition save_defaults :: "shoe list \<Rightarrow> figure \<Rightarrow> figure \<Rightarrow> event list" where
  "save_defaults df charts_fig table_fig =
     [Print (LF # ''Input error detected. Saving data with default filenames.''),
      ToCsv ''shoe_collection.csv'' df,
      Print (''Data saved to '' @ quoted ''shoe_collection.csv''),
      SaveFig ''shoe_collection_charts.png'' charts_fig,
      SaveFig ''shoe_collection_table.png'' table_fig,
      Print ''Figures saved with default filenames.'']"

definition save_interactive :: "string list \<Rightarrow> shoe list \<Rightarrow> figure \<Rightarrow> figure \<Rightarrow> event list" where
  "save_interactive inp df charts_fig table_fig =
     (case ask_csv inp df of
        (ev, None) \<Rightarrow> ev @ save_defaults df charts_fig table_fig
      | (ev, Some inp1) \<Rightarrow>
          (case ask_figs inp1 charts_fig table_fig of
             (ev', None) \<Rightarrow> ev @ ev' @ save_defaults df charts_fig table_fig
           | (ev', Some inp2) \<Rightarrow> ev @ ev'))"

text \<open>
  The part of \<^verbatim>\<open>main\<close> after the records are there. The value of
  \<^verbatim>\<open>analyze_shoes\<close> is unpacked into two names, which raises \<^verbatim>\<open>TypeError\<close> when the
  value is \<^verbatim>\<open>None\<close>.
\<close>

definition analyze_and_save :: "bool \<Rightarrow> string list \<Rightarrow> shoe list \<Rightarrow> event list \<times> exn option" where
  "analyze_and_save is_piped_input inp shoes =
     after [Print (LF # ''Analyzing your shoe collection...'')]
       (case analyze_shoes shoes is_piped_input of
          (ev, None) \<Rightarrow> (ev, Some TypeError)
        | (ev, Some (charts_fig, table_fig)) \<Rightarrow>
            (ev @ (if is_piped_input then save_piped shoes charts_fig table_fig
                   else save_interactive inp shoes charts_fig table_fig)
                @ [Print ''Thank you for using the Shoe Collection Analyzer!''],
             None))"

text \<open>
  Standard input is a terminal, with the lines that will be typed, or a redirected
  stream, with its whole text. \<^verbatim>\<open>main\<close> returns the events and the exception that ended
  the run, if one did. Files written by the session can be written.
\<close>

datatype stdin = Terminal "string list" | Piped string

definition main :: "(string \<Rightarrow> file_access) \<Rightarrow> stdin \<Rightarrow> event list \<times> exn option" where
  "main fs stdin =
     after [Print ''=== Shoe Collection Analyzer ==='']
       (case stdin of
          Piped text \<Rightarrow>
            after [Print ''Detecting piped input...'',
                   WriteFile ''temp_shoe_data.txt'' text,
                   Print ''Reading shoe data from piped input...'']
              (case read_shoe_data_from_file (fs(''temp_shoe_data.txt'' := Content text))
                      ''temp_shoe_data.txt'' of
                 (out, None) \<Rightarrow>
                   (map Print out
                      @ [RemoveFile ''temp_shoe_data.txt'',
                         Print ''No valid data found in the piped input. Exiting program.''],
                    None)
               | (out, Some shoes) \<Rightarrow>
                   if shoes = [] then
                     (map Print out
                        @ [RemoveFile ''temp_shoe_data.txt'',
                           Print ''No valid data found in the piped input. Exiting program.''],
                      None)
                   else after (map Print out @ [RemoveFile ''temp_shoe_data.txt''])
                          (analyze_and_save True [] shoes))
        | Terminal inp \<Rightarrow>
            after [Print ''This program will collect data about your shoes and display visualizations.'',
                   Print (LF # ''How would you like to enter your shoe data?''),
                   Print ''1. Input data manually'',
                   Print ''2. Read data from a text file'',
                   Print ''3. Create a template file for future use'']
              (case choose_mode fs inp of
                 (ev, Inl e) \<Rightarrow> (ev, Some e)
               | (ev, Inr None) \<Rightarrow> (ev, None)
               | (ev, Inr (Some (shoes, rest))) \<Rightarrow> after ev (analyze_and_save False rest shoes)))"

text \<open>What a run leaves behind: the CSV and image files.\<close>

fun is_artifact :: "event \<Rightarrow> bool" where
  "is_artifact (ToCsv f df) = True"
| "is_artifact (SaveFig f g) = True"
| "is_artifact e = False"

section \<open>The CSV export\<close>

text \<open>
  \<^verbatim>\<open>df.to_csv(name, index=False)\<close>, for a frame with at least one record: the header
  with the five column names, then a line for each record. A field with a comma, a double
  quote or a line break in it is written between double quotes, its double quotes doubled.
  The text that pandas writes for a float is not code of the program: it is the parameter
  \<open>fmt\<close>.
\<close>

definition csv_special :: "char \<Rightarrow> bool" where
  "csv_special c = (c = CHR '','' \<or> c = CHR 0x22 \<or> c = CR \<or> c = LF)"

definition csv_field :: "string \<Rightarrow> string" where
  "csv_field s =
     (if list_ex csv_special s
      then CHR 0x22 # concat (map (\<lambda>c. if c = CHR 0x22 then [c, c] else [c]) s) @ [CHR 0x22]
      else s)"

definition csv_line :: "string list \<Rightarrow> string" where
  "csv_line row = join CHR '','' (map csv_field row) @ [LF]"

definition cells :: "(pyfloat \<Rightarrow> string) \<Rightarrow> shoe \<Rightarrow> string list" where
  "cells fmt r = [brand r, name r, color r, usage r, fmt (size_val r)]"

fun to_csv :: "(pyfloat \<Rightarrow> string) \<Rightarrow> shoe list \<Rightarrow> string" where
  "to_csv fmt (r # rs) =
     concat (map csv_line
       ([''brand'', ''name'', ''color'', ''usage'', ''size''] # map (cells fmt) (r # rs)))"

text \<open>
  The text of a float whose decimal expansion is short, as pandas writes it for a size
  such as \<open>10.5\<close> or \<open>11.0\<close>; it stands for \<open>fmt\<close> on the files written out below.
\<close>

fun frac_digits :: "nat \<Rightarrow> real \<Rightarrow> string" where
  "frac_digits 0 f = []"
| "frac_digits (Suc k) f =
     (if f = 0 then []
      else char_of (48 + nat \<lfloor>10 * f\<rfloor>) # frac_digits k (10 * f - of_int \<lfloor>10 * f\<rfloor>))"

definition float_text :: "pyfloat \<Rightarrow> string" where
  "float_text x =
     (case x of
        NaN \<Rightarrow> []
      | PosInf \<Rightarrow> ''inf''
      | NegInf \<Rightarrow> ''-inf''
      | Finite v \<Rightarrow>
          (if v < 0 then ''-'' else []) @ str_nat (nat \<lfloor>\<bar>v\<bar>\<rfloor>) @ ''.''
          @ (if \<bar>v\<bar> = of_int \<lfloor>\<bar>v\<bar>\<rfloor> then ''0'' else frac_digits 17 (\<bar>v\<bar> - of_int \<lfloor>\<bar>v\<bar>\<rfloor>)))"

text \<open>
  The records that the reader of the program can take back from the export: in none of
  the five texts of a row a comma, a double quote or a line break; no white space and no
  \<^verbatim>\<open>#\<close> at the start of the brand; no white space at the end of the size text.
\<close>

definition plain_text :: "string \<Rightarrow> bool" where
  "plain_text s = (\<not> list_ex csv_special s)"

definition clean_start :: "string \<Rightarrow> bool" where
  "clean_start s = (case s of [] \<Rightarrow> True | c # cs \<Rightarrow> \<not> is_space c \<and> c \<noteq> CHR ''#'')"

definition clean_end :: "string \<Rightarrow> bool" where
  "clean_end s = (case rev s of [] \<Rightarrow> True | c # cs \<Rightarrow> \<not> is_space c)"

definition round_trips :: "(pyfloat \<Rightarrow> string) \<Rightarrow> shoe \<Rightarrow> bool" where
  "round_trips fmt r =
     (list_all plain_text (cells fmt r) \<and> clean_start (brand r) \<and> clean_end (fmt (size_val r)))"

section \<open>Inputs used as examples\<close>

definition scenario_file :: string where
  "scenario_file = ''Brand,Name,Color,Usage,Size'' @ [LF] @ ''# note'' @ [LF] @ [LF]
      @ ''nike,air max,black,athletic,10.5'' @ [LF]"


definition short_file :: string where
  "short_file = ''Brand,Name,Color,Usage,Size'' @ [LF] @ ''# note'' @ [LF] @ [LF]
      @ ''nike,air max,black'' @ [LF] @ ''a,b,c,d''"






definition comma_frame :: "shoe list" where
  "comma_frame = [\<lparr>brand = ''A,b'', name = ''X'', color = ''Red'', usage = ''Casual'',
                    size_val = Finite 10.5\<rparr>]"

definition small_frame :: "shoe list" where
  "small_frame =
     [\<lparr>brand = ''Nike'', name = ''Air max'', color = ''Black'', usage = ''Athletic'',
        size_val = Finite 10.5\<rparr>,
      \<lparr>brand = ''Bata'', name = '''', color = ''Dark red'', usage = ''Casual'',
        size_val = Finite 11\<rparr>]"

section \<open>Properties of the file collector\<close>

lemma process_line_data:
  "data_row l \<Longrightarrow> process_line l st = (fst st @ row_warnings l, snd st @ [row_record l])"
  by (simp add: data_row_def blank_line_def comment_line_def row_parts_def process_line_def
      row_warnings_def row_record_def Let_def)

lemma process_line_skip: "\<not> data_row l \<Longrightarrow> process_line l st = st"
  by (auto simp add: data_row_def blank_line_def comment_line_def row_parts_def process_line_def Let_def)

lemma loop_lines:
  "foldl (\<lambda>st line. process_line line st) (out, shoes) ls =
     (out @ concat (map row_warnings (filter data_row ls)),
      shoes @ map row_record (filter data_row ls))"
proof (induction ls arbitrary: out shoes)
  case Nil
  show ?case by simp
next
  case (Cons l ls)
  show ?case
  proof (cases "data_row l")
    case True
    then show ?thesis by (simp add: process_line_data Cons.IH)
  next
    case False
    then show ?thesis by (simp add: process_line_skip Cons.IH)
  qed
qed

lemma read_content:
  "fs f = Content text \<Longrightarrow>
   read_shoe_data_from_file fs f =
     (if data_rows text = [] then ([''No valid data found in the file.''], None)
      else (concat (map row_warnings (data_rows text)), Some (map row_record (data_rows text))))"
  by (simp add: read_shoe_data_from_file_def loop_lines data_rows_def)








text \<open>
  C9: the file with the header line, the comment line \<^verbatim>\<open># note\<close>, a blank line and
  the data line \<^verbatim>\<open>nike,air max,black,athletic,10.5\<close> gives exactly one record, with brand
  Nike, name Air max, color Black, usage Athletic and size 10.5, and no warning.
\<close>

theorem scenario_one_record:
  "read_shoe_data_from_file (\<lambda>p. Content scenario_file) ''shoes.txt'' =
     ([], Some [\<lparr>brand = ''Nike'', name = ''Air max'', color = ''Black'',
                 usage = ''Athletic'', size_val = Finite 10.5\<rparr>])"
  by code_simp





text \<open>
  C5: the file collector returns no result exactly when the file cannot be opened and read
  or when it has no data row; it is a total function, so that in every other case it
  returns its records and no exception leaves it.
\<close>

theorem no_result_iff:
  "snd (read_shoe_data_from_file fs filename) = None \<longleftrightarrow>
     (case fs filename of NotFound \<Rightarrow> True | Failure e \<Rightarrow> True | Content text \<Rightarrow> data_rows text = [])"
  by (cases "fs filename") (simp_all add: read_content, simp_all add: read_shoe_data_from_file_def)

text \<open>
  C10: a line that is not blank, is not a comment and has fewer than five fields adds no
  record and prints no warning, and a file in which every line after the header is blank,
  a comment or such a short line is reported as holding no valid data.
\<close>

theorem short_rows_ignored:
  "(short_row line \<longrightarrow> process_line line st = st)
   \<and> (fs filename = Content text
        \<and> list_all (\<lambda>l. blank_line l \<or> comment_line l \<or> short_row l) (drop 1 (readlines text)) \<longrightarrow>
      read_shoe_data_from_file fs filename = ([''No valid data found in the file.''], None))"
proof -
  have a: "short_row line \<Longrightarrow> process_line line st = st"
    by (rule process_line_skip) (simp add: short_row_def data_row_def)
  have b: "list_all (\<lambda>l. blank_line l \<or> comment_line l \<or> short_row l) ls \<Longrightarrow> filter data_row ls = []" for ls
    by (induction ls) (auto simp add: data_row_def short_row_def)
  show ?thesis
    using a b [of "drop 1 (readlines text)"] by (auto simp add: read_content data_rows_def)
qed

theorem short_rows_ignored_witness:
  "short_row ''a,b,c,d''
   \<and> process_line ''a,b,c,d'' ([], []) = ([], [])
   \<and> list_all (\<lambda>l. blank_line l \<or> comment_line l \<or> short_row l) (drop 1 (readlines short_file))
   \<and> read_shoe_data_from_file (\<lambda>p. Content short_file) ''shoes.txt'' = ([''No valid data found in the file.''], None)"
proof -
  have s: "short_row ''a,b,c,d''" by code_simp
  have l: "list_all (\<lambda>l. blank_line l \<or> comment_line l \<or> short_row l) (drop 1 (readlines short_file))"
    by code_simp
  show ?thesis
    using short_rows_ignored [of "''a,b,c,d''" "([], [])" "\<lambda>p. Content short_file" "''shoes.txt''" short_file] s l
    by simp
qed

section \<open>Properties of the interactive collector\<close>










section \<open>Properties of the session\<close>

text \<open>
  C1 fails on the code. A session on a terminal that chooses manual entry and answers the
  count with 0 collects an empty list: the message for the empty frame is printed, nothing
  is rendered and no file is written, but \<^verbatim>\<open>main\<close> unpacks the \<^verbatim>\<open>None\<close> that
  \<^verbatim>\<open>analyze_shoes\<close> returned, and the \<^verbatim>\<open>TypeError\<close> ends the run unhandled.
\<close>

theorem empty_collection_raises_type_error:
  "main (\<lambda>p. NotFound) (Terminal [''1'', ''0'']) =
     ([Print ''=== Shoe Collection Analyzer ==='',
       Print ''This program will collect data about your shoes and display visualizations.'',
       Print (LF # ''How would you like to enter your shoe data?''),
       Print ''1. Input data manually'',
       Print ''2. Read data from a text file'',
       Print ''3. Create a template file for future use'',
       Print (LF # ''Enter your choice (1-3): ''),
       Print ''How many shoes do you have in your collection? '',
       Print (LF # ''Analyzing your shoe collection...''),
       Print ''No shoe data available for analysis.''],
      Some TypeError)
   \<and> \<not> list_ex is_artifact (fst (main (\<lambda>p. NotFound) (Terminal [''1'', ''0''])))"
  by code_simp

lemma analyze_and_save_empty:
  "analyze_and_save piped inp [] =
     ([Print (LF # ''Analyzing your shoe collection...''),
       Print ''No shoe data available for analysis.''], Some TypeError)"
  by (simp add: analyze_and_save_def analyze_shoes_def after_def)

section \<open>Properties of the cross tabulation\<close>


















section \<open>Properties of the CSV export\<close>

lemma universal_newlines_id: "CR \<notin> set t \<Longrightarrow> universal_newlines t = t"
  by (induction t rule: universal_newlines.induct) auto

lemma split_lines_line:
  "LF \<notin> set l \<Longrightarrow> split_lines (l @ LF # rest) = (l @ [LF]) # split_lines rest"
  by (induction l) auto

lemma split_lines_concat:
  "(\<And>l. l \<in> set ls \<Longrightarrow> LF \<notin> set l) \<Longrightarrow>
     split_lines (concat (map (\<lambda>l. l @ [LF]) ls)) = map (\<lambda>l. l @ [LF]) ls"
  by (induction ls) (simp_all add: split_lines_line)

lemma readlines_lines:
  assumes "\<And>l. l \<in> set ls \<Longrightarrow> LF \<notin> set l \<and> CR \<notin> set l"
  shows "readlines (concat (map (\<lambda>l. l @ [LF]) ls)) = map (\<lambda>l. l @ [LF]) ls"
proof -
  have "CR \<notin> set (concat (map (\<lambda>l. l @ [LF]) ls))"
    using assms by (auto simp add: CR_def LF_def)
  then show ?thesis
    using assms by (simp add: readlines_def universal_newlines_id split_lines_concat)
qed

lemma split_on_part:
  "sep \<notin> set p \<Longrightarrow> split_on sep (p @ sep # rest) = p # split_on sep rest"
  by (induction p) auto

lemma split_on_whole: "sep \<notin> set p \<Longrightarrow> split_on sep p = [p]"
  by (induction p) auto

lemma strip_line:
  assumes "s \<noteq> []" and "\<not> is_space (hd s)" and "\<not> is_space (last s)"
  shows "strip (s @ [LF]) = s"
proof -
  have lf: "is_space LF" by (simp add: is_space_def LF_def)
  from assms(1,2) have a: "dropWhile is_space (s @ [LF]) = s @ [LF]"
    by (cases s) simp_all
  from assms(1,3) have b: "dropWhile is_space (rev s) = rev s"
    by (cases s rule: rev_cases) simp_all
  show ?thesis by (simp add: strip_def a b lf)
qed

lemma plain_textD:
  "plain_text s \<Longrightarrow> CHR '','' \<notin> set s \<and> LF \<notin> set s \<and> CR \<notin> set s"
  by (auto simp add: plain_text_def list_ex_iff csv_special_def)

lemma csv_field_plain: "plain_text s \<Longrightarrow> csv_field s = s"
  by (simp add: csv_field_def plain_text_def)

lemma row_line:
  assumes "round_trips fmt r"
  shows "csv_line (cells fmt r) = join CHR '','' (cells fmt r) @ [LF]"
    and "LF \<notin> set (join CHR '','' (cells fmt r)) \<and> CR \<notin> set (join CHR '','' (cells fmt r))"
    and "data_row (join CHR '','' (cells fmt r) @ [LF])"
    and "row_parts (join CHR '','' (cells fmt r) @ [LF]) = cells fmt r"
proof -
  let ?b = "brand r" and ?n = "name r" and ?c = "color r" and ?u = "usage r"
  let ?z = "fmt (size_val r)"
  let ?s = "?b @ CHR '','' # ?n @ CHR '','' # ?c @ CHR '','' # ?u @ CHR '','' # ?z"
  from assms have p: "plain_text ?b" "plain_text ?n" "plain_text ?c" "plain_text ?u" "plain_text ?z"
    and cs: "clean_start ?b" and ce: "clean_end ?z"
    by (simp_all add: round_trips_def cells_def)
  have j: "join CHR '','' (cells fmt r) = ?s"
    by (simp add: cells_def)
  show "csv_line (cells fmt r) = join CHR '','' (cells fmt r) @ [LF]"
    using p by (simp add: csv_line_def cells_def csv_field_plain)
  have comma: "LF \<noteq> CHR '',''" "CR \<noteq> CHR '',''" "\<not> is_space CHR '',''"
    by (simp_all add: LF_def CR_def is_space_def)
  show "LF \<notin> set (join CHR '','' (cells fmt r)) \<and> CR \<notin> set (join CHR '','' (cells fmt r))"
    unfolding j using p [THEN plain_textD] comma by simp
  have ne: "?s \<noteq> []" by simp
  have h: "\<not> is_space (hd ?s) \<and> hd ?s \<noteq> CHR ''#''"
    using cs comma by (cases ?b) (simp_all add: clean_start_def)
  have l: "\<not> is_space (last ?s)"
    using ce comma by (cases ?z rule: rev_cases) (simp_all add: clean_end_def)
  have st: "strip (?s @ [LF]) = ?s"
    using ne h l by (intro strip_line) simp_all
  have sp: "split_on CHR '','' ?s = [?b, ?n, ?c, ?u, ?z]"
    using p [THEN plain_textD] by (simp add: split_on_part split_on_whole)
  have nc: "\<not> startswith ?s ''#''"
    using h by (cases ?s) (simp_all add: startswith_def)
  show "row_parts (join CHR '','' (cells fmt r) @ [LF]) = cells fmt r"
    unfolding j row_parts_def st sp by (simp add: cells_def)
  show "data_row (join CHR '','' (cells fmt r) @ [LF])"
    unfolding j data_row_def blank_line_def comment_line_def row_parts_def st sp
    using ne nc by simp
qed

lemma to_csv_lines:
  assumes "df \<noteq> []" and "list_all (round_trips fmt) df"
  shows "drop 1 (readlines (to_csv fmt df)) =
           map (\<lambda>r. join CHR '','' (cells fmt r) @ [LF]) df"
proof -
  let ?hdr = "''brand,name,color,usage,size''"
  let ?ls = "?hdr # map (\<lambda>r. join CHR '','' (cells fmt r)) df"
  have hdr: "csv_line [''brand'', ''name'', ''color'', ''usage'', ''size''] = ?hdr @ [LF]"
    by (simp add: csv_line_def csv_field_def csv_special_def LF_def CR_def)
  have rows: "map (\<lambda>r. csv_line (cells fmt r)) df = map (\<lambda>r. join CHR '','' (cells fmt r) @ [LF]) df"
    using assms(2) by (simp add: list_all_iff row_line(1))
  from assms(1) obtain r rs where df: "df = r # rs" by (cases df) auto
  have "to_csv fmt df = concat (map csv_line ([''brand'', ''name'', ''color'', ''usage'', ''size'']
                                      # map (cells fmt) df))"
    unfolding df by simp
  also have "\<dots> = concat (map (\<lambda>l. l @ [LF]) ?ls)"
    by (simp add: comp_def hdr rows)
  finally have t: "to_csv fmt df = concat (map (\<lambda>l. l @ [LF]) ?ls)" .
  have ok: "LF \<notin> set l \<and> CR \<notin> set l" if "l \<in> set ?ls" for l
  proof (cases "l = ?hdr")
    case True
    then show ?thesis by (simp add: LF_def CR_def)
  next
    case False
    with that obtain r where "r \<in> set df" "l = join CHR '','' (cells fmt r)" by auto
    then show ?thesis
      using assms(2) row_line(2) [of fmt r] by (simp add: list_all_iff)
  qed
  have "readlines (to_csv fmt df) = map (\<lambda>l. l @ [LF]) ?ls"
    unfolding t by (rule readlines_lines) (rule ok)
  then show ?thesis by (simp add: comp_def)
qed

text \<open>
  C6, amended: for a frame of \<open>N > 0\<close> records in whose five written texts there is no
  comma, double quote or line break, whose brands do not start with white space or
  \<^verbatim>\<open>#\<close> and whose size texts do not end in white space, the file that \<^verbatim>\<open>to_csv\<close>
  writes has exactly \<open>N\<close> data rows, whose fields are the texts written, in the same
  order; the file collector returns the \<open>N\<close> records that its normalization makes of
  them.
\<close>

theorem csv_round_trip:
  assumes "df \<noteq> []" and "list_all (round_trips fmt) df"
    and "fs filename = Content (to_csv fmt df)"
  shows "map row_parts (data_rows (to_csv fmt df)) = map (cells fmt) df
         \<and> read_shoe_data_from_file fs filename =
             (concat (map (\<lambda>r. fst (build_record (cells fmt r))) df),
              Some (map (\<lambda>r. snd (build_record (cells fmt r))) df))"
proof -
  let ?line = "\<lambda>r. join CHR '','' (cells fmt r) @ [LF]"
  have all: "r \<in> set df \<Longrightarrow> round_trips fmt r" for r
    using assms(2) by (simp add: list_all_iff)
  have rows: "data_rows (to_csv fmt df) = map ?line df"
    unfolding data_rows_def to_csv_lines [OF assms(1,2)]
    by (simp add: filter_id_conv all row_line(3))
  have parts: "map row_parts (data_rows (to_csv fmt df)) = map (cells fmt) df"
    unfolding rows using all by (simp add: row_line(4))
  have recs: "map row_record (data_rows (to_csv fmt df)) = map (\<lambda>r. snd (build_record (cells fmt r))) df"
    unfolding rows using all by (simp add: row_record_def row_line(4))
  have warns: "map row_warnings (data_rows (to_csv fmt df)) = map (\<lambda>r. fst (build_record (cells fmt r))) df"
    unfolding rows using all by (simp add: row_warnings_def row_line(4))
  have ne: "data_rows (to_csv fmt df) \<noteq> []"
    unfolding rows using assms(1) by simp
  show ?thesis
    using parts ne recs warns
    by (simp add: read_content [of fs filename "to_csv fmt df", OF assms(3)])
qed


theorem csv_round_trip_witness:
  "small_frame \<noteq> [] \<and> list_all (round_trips float_text) small_frame
   \<and> to_csv float_text small_frame =
       ''brand,name,color,usage,size'' @ [LF] @ ''Nike,Air max,Black,Athletic,10.5'' @ [LF]
       @ ''Bata,,Dark red,Casual,11.0'' @ [LF]
   \<and> map row_parts (data_rows (to_csv float_text small_frame)) = map (cells float_text) small_frame
   \<and> read_shoe_data_from_file (\<lambda>p. Content (to_csv float_text small_frame)) ''shoe_collection.csv''
       = ([], Some small_frame)"
proof -
  have n: "small_frame \<noteq> []" by (simp add: small_frame_def)
  have r: "list_all (round_trips float_text) small_frame" by code_simp
  have t: "to_csv float_text small_frame =
       ''brand,name,color,usage,size'' @ [LF] @ ''Nike,Air max,Black,Athletic,10.5'' @ [LF]
       @ ''Bata,,Dark red,Casual,11.0'' @ [LF]" by code_simp
  have w: "concat (map (\<lambda>r. fst (build_record (cells float_text r))) small_frame) = []" by code_simp
  have s: "map (\<lambda>r. snd (build_record (cells float_text r))) small_frame = small_frame" by code_simp
  show ?thesis
    using csv_round_trip [OF n r, of "\<lambda>p. Content (to_csv float_text small_frame)" "''shoe_collection.csv''"]
      n r t w s
    by simp
qed

text \<open>
  C6, as stated, fails: a brand with a comma in it is written between double quotes, and
  the file collector, which splits at every comma, reads six fields, none of the first
  four being the text written.
\<close>

theorem csv_round_trip_counterexample:
  "to_csv float_text comma_frame =
       ''brand,name,color,usage,size'' @ [LF]
       @ [CHR 0x22] @ ''A,b'' @ [CHR 0x22] @ '',X,Red,Casual,10.5'' @ [LF]
   \<and> map row_parts (data_rows (to_csv float_text comma_frame))
       = [[[CHR 0x22, CHR ''A''], [CHR ''b'', CHR 0x22], ''X'', ''Red'', ''Casual'', ''10.5'']]
   \<and> map (cells float_text) comma_frame = [[''A,b'', ''X'', ''Red'', ''Casual'', ''10.5'']]
   \<and> snd (read_shoe_data_from_file (\<lambda>p. Content (to_csv float_text comma_frame))
            ''shoe_collection.csv'')
       = Some [\<lparr>brand = [CHR 0x22, CHR ''a''], name = [CHR ''B'', CHR 0x22], color = ''X'',
                 usage = ''Casual'', size_val = Finite 0\<rparr>]"
  by code_simp

end
